theory Spec2Isabelle
  imports Complex_Main "HOL-Library.Char_ord" "HOL-Library.List_Lexorder" "HOL-Library.Multiset" "HOL-Library.Sublist"
begin

section \<open>The expense analyzer of python-service/app.py\<close>

text \<open>
  The service has two operations, \<open>/analyze\<close> (class \<open>ExpenseAnalyzer\<close>) and \<open>/insights\<close>.
  Both build a pandas data frame from the posted expense records and aggregate it.

  Conventions of the embedding:
  \<^item> A Python \<open>float\<close> is a \<open>real\<close>: arithmetic is exact; rounding, overflow and
    non-finite amounts are outside the model, except for the sums of amounts, which are
    also given with every addition rounded to float64 (see the sums in float64). The one place where the source divides a
    pandas series by a number that can be zero (the category percentages) keeps numpy's
    result (\<open>inf\<close>, \<open>-inf\<close>, \<open>nan\<close>) as a value of \<open>npfloat\<close>.
  \<^item> \<open>float(x)\<close>, \<open>int(x)\<close> on an integer and \<open>convert_numpy_types\<close> only change the
    boxing of a number and are the identity here.
  \<^item> A parsed timestamp is the number of seconds since 1970-01-01 00:00 (a Thursday),
    without a time zone. \<open>datetime.now()\<close> is the parameter \<open>now\<close>.
  \<^item> \<open>pd.to_datetime\<close> and \<open>pd.to_numeric\<close> are library code: the element parsers are
    parameters \<open>to_datetime\<close> and \<open>to_numeric\<close>, which give a timestamp or a number, or
    the exception text on failure (the missing values \<open>NaT\<close> and \<open>NaN\<close> are not results).
  \<^item> A record has the four fields \<open>date\<close>, \<open>amount\<close>, \<open>category\<close>, \<open>paymentMethod\<close>;
    the two labels are strings, compared bytewise as Python compares code points.
  \<^item> An exception is its text \<open>str(e)\<close>, the only part the routes report.
  \<^item> An f-string with a formatted number is a constructor of \<open>message\<close> carrying the number.
  \<^item> A dict with optional keys is a record whose optional fields have an option type; a
    dict returned by \<open>to_dict()\<close> is the list of its items in key order.
\<close>

subsection \<open>Data\<close>

type_synonym timestamp = int

type_synonym exn = string

record ('d, 'a) expense =
  date :: 'd
  amount :: 'a
  category :: string
  paymentMethod :: string

type_synonym dataframe = "(timestamp, real) expense list"

datatype npfloat = Finite real | PosInf | NegInf | NaN

datatype message =
    NoExpenseData
  | StartTracking
  | TotalQuiteHigh real
  | SpendingModerate real
  | CategoryAccountsFor string npfloat
  | DailySpendingVaries
  | OnlyUse string
  | SpendingIncreased real
  | SpendingDecreased real
  | TrackRegularly
  | AnalysisComplete real

record insights =
  totalSpending :: real
  averageDailySpending :: real
  topCategory :: string
  topPaymentMethod :: string
  categoryBreakdown :: "(string \<times> real) list"
  paymentMethodBreakdown :: "(string \<times> real) list"
  transactionCount :: int
  daysAnalyzed :: int

record analysis =
  totalSpending :: real
  averageDailySpending :: real
  topCategory :: string
  topCategoryAmount :: "real option"
  categoryBreakdown :: "(string \<times> real) list option"
  paymentMethodBreakdown :: "(string \<times> real) list option"
  efficiencyScore :: "int option"
  patterns :: "string list option"
  message :: message

record suggestion =
  type :: string
  message :: message
  priority :: string

record ('d, 'a) body =
  expenses :: "('d, 'a) expense list option"
  userId :: "string option"
  userName :: "string option"
  days :: "int option"

datatype 'r response = Json200 'r | Json400 string | Json500 string exn

record thresholds =
  low :: real
  medium :: real
  high :: real

definition spending_thresholds :: thresholds where
  "spending_thresholds = \<lparr>low = 1000, medium = 5000, high = 10000\<rparr>"

subsection \<open>The pandas and numpy operations the source calls\<close>

definition KeyError :: "string \<Rightarrow> exn" where
  "KeyError k = [CHR 0x27] @ k @ [CHR 0x27]"

text \<open>\<open>df[name]\<close>: a frame built from an empty list has no columns.\<close>

definition column :: "string \<Rightarrow> ('r \<Rightarrow> 'x) \<Rightarrow> 'r list \<Rightarrow> exn + 'x list" where
  "column name field rows = (if rows = [] then Inl (KeyError name) else Inr (map field rows))"

text \<open>Parsing a column raises at the first element that does not parse.\<close>

fun parse_column :: "('x \<Rightarrow> exn + 'y) \<Rightarrow> 'x list \<Rightarrow> exn + 'y list" where
  "parse_column f [] = Inr []"
| "parse_column f (x # xs) =
     (case f x of
        Inl e \<Rightarrow> Inl e
      | Inr y \<Rightarrow> (case parse_column f xs of Inl e \<Rightarrow> Inl e | Inr ys \<Rightarrow> Inr (y # ys)))"

text \<open>
  \<open>df = pd.DataFrame(expenses); df['date'] = pd.to_datetime(df['date']);
  df['amount'] = pd.to_numeric(df['amount'])\<close>
\<close>

definition build_frame ::
  "('d \<Rightarrow> exn + timestamp) \<Rightarrow> ('a \<Rightarrow> exn + real) \<Rightarrow> ('d, 'a) expense list \<Rightarrow> exn + dataframe" where
  "build_frame to_datetime to_numeric expenses_data =
     (case column ''date'' date expenses_data of
        Inl e \<Rightarrow> Inl e
      | Inr ds \<Rightarrow>
     (case parse_column to_datetime ds of
        Inl e \<Rightarrow> Inl e
      | Inr dates \<Rightarrow>
     (case column ''amount'' amount expenses_data of
        Inl e \<Rightarrow> Inl e
      | Inr ams \<Rightarrow>
     (case parse_column to_numeric ams of
        Inl e \<Rightarrow> Inl e
      | Inr amounts \<Rightarrow>
          Inr (map (\<lambda>(r, d, a). \<lparr>date = d, amount = a, category = category r,
                                  paymentMethod = paymentMethod r\<rparr>)
                 (zip expenses_data (zip dates amounts)))))))"

text \<open>\<open>df.groupby(key)['amount'].sum()\<close>: one entry per distinct key, keys sorted.\<close>

definition groupby_sum :: "((timestamp, real) expense \<Rightarrow> 'k::linorder) \<Rightarrow> dataframe \<Rightarrow> ('k \<times> real) list" where
  "groupby_sum key df =
     map (\<lambda>k. (k, sum_list (map amount (filter (\<lambda>r. key r = k) df)))) (sort (remdups (map key df)))"

text \<open>\<open>Series.max()\<close>; only reached on a series with an entry.\<close>

fun series_max :: "real list \<Rightarrow> real" where
  "series_max [x] = x"
| "series_max (x # y # ys) = max x (series_max (y # ys))"

text \<open>\<open>Series.idxmax()\<close>: the label of the first maximal entry, ValueError on an empty series.\<close>

definition idxmax :: "('k \<times> real) list \<Rightarrow> exn + 'k" where
  "idxmax s =
     (if s = [] then Inl ''attempt to get argmax of an empty sequence''
      else Inr (fst (hd (filter (\<lambda>kv. snd kv = series_max (map snd s)) s))))"

text \<open>\<open>Series.value_counts()\<close>: the distinct values with their counts, most frequent first.\<close>

definition value_counts :: "'k list \<Rightarrow> ('k \<times> nat) list" where
  "value_counts xs = sort_key (\<lambda>kc. - int (snd kc)) (map (\<lambda>k. (k, count_list xs k)) (remdups xs))"

definition mean :: "real list \<Rightarrow> real" where
  "mean xs = sum_list xs / real (length xs)"

text \<open>\<open>Series.std()\<close>: the sample standard deviation (divisor \<open>n - 1\<close>).\<close>

definition std :: "real list \<Rightarrow> real" where
  "std xs = sqrt (sum_list (map (\<lambda>x. (x - mean xs)\<^sup>2) xs) / real (length xs - 1))"

text \<open>\<open>Series.quantile(q)\<close>: linear interpolation between the two nearest ranks.\<close>

definition quantile :: "real list \<Rightarrow> real \<Rightarrow> real" where
  "quantile xs q =
     (let s = sort xs;
          h = q * real (length xs - 1);
          lo = nat \<lfloor>h\<rfloor>;
          hi = min (lo + 1) (length xs - 1)
      in s ! lo + (s ! hi - s ! lo) * (h - real lo))"

text \<open>numpy's float division and what the source does with its result.\<close>

definition np_div :: "real \<Rightarrow> real \<Rightarrow> npfloat" where
  "np_div x y =
     (if y \<noteq> 0 then Finite (x / y) else if x > 0 then PosInf else if x < 0 then NegInf else NaN)"

fun np_scale :: "npfloat \<Rightarrow> real \<Rightarrow> npfloat" where
  "np_scale (Finite x) c = Finite (x * c)"
| "np_scale PosInf c = (if c > 0 then PosInf else if c < 0 then NegInf else NaN)"
| "np_scale NegInf c = (if c > 0 then NegInf else if c < 0 then PosInf else NaN)"
| "np_scale NaN c = NaN"

fun np_gt :: "npfloat \<Rightarrow> real \<Rightarrow> bool" where
  "np_gt (Finite x) c = (x > c)"
| "np_gt PosInf c = True"
| "np_gt NegInf c = False"
| "np_gt NaN c = False"

text \<open>\<open>.dt.date\<close> (the day number) and \<open>.dt.weekday\<close> (Monday is 0).\<close>

definition date_of :: "timestamp \<Rightarrow> int" where
  "date_of t = t div 86400"

definition weekday :: "timestamp \<Rightarrow> int" where
  "weekday t = (date_of t + 3) mod 7"

definition timedelta_days :: "int \<Rightarrow> int" where
  "timedelta_days n = n * 86400"

subsection \<open>Suggestions\<close>

text \<open>
  \<open>_generate_suggestions\<close> appends to the list \<open>suggestions\<close> in six blocks and returns
  \<open>suggestions[:5]\<close>. Each block is a function from the list to the list.
\<close>

definition spending_level :: "real \<Rightarrow> suggestion list \<Rightarrow> suggestion list" where
  "spending_level total_spending suggestions =
     (if total_spending > high spending_thresholds then
        suggestions @ [\<lparr>type = ''warning'', message = TotalQuiteHigh total_spending,
                        priority = ''high''\<rparr>]
      else if total_spending > medium spending_thresholds then
        suggestions @ [\<lparr>type = ''advice'', message = SpendingModerate total_spending,
                        priority = ''medium''\<rparr>]
      else suggestions)"

definition category_analysis :: "dataframe \<Rightarrow> real \<Rightarrow> suggestion list \<Rightarrow> suggestion list" where
  "category_analysis df total_spending suggestions =
     (let category_totals = groupby_sum category df;
          category_percentages =
            map (\<lambda>(c, t). (c, np_scale (np_div t total_spending) 100)) category_totals
      in fold (\<lambda>(category, percentage) suggestions.
                 if np_gt percentage 40 then
                   suggestions @ [\<lparr>type = ''advice'',
                                   message = CategoryAccountsFor category percentage,
                                   priority = ''medium''\<rparr>]
                 else suggestions)
           category_percentages suggestions)"

definition daily_pattern :: "dataframe \<Rightarrow> suggestion list \<Rightarrow> suggestion list" where
  "daily_pattern df suggestions =
     (let daily_spending = map snd (groupby_sum (\<lambda>r. date_of (date r)) df)
      in if length daily_spending > 1 \<and> std daily_spending > mean daily_spending * 0.5 then
           suggestions @ [\<lparr>type = ''tip'', message = DailySpendingVaries, priority = ''low''\<rparr>]
         else suggestions)"

definition payment_method_analysis :: "dataframe \<Rightarrow> suggestion list \<Rightarrow> suggestion list" where
  "payment_method_analysis df suggestions =
     (let payment_methods = value_counts (map paymentMethod df)
      in if length payment_methods = 1 then
           suggestions @ [\<lparr>type = ''tip'', message = OnlyUse (fst (payment_methods ! 0)),
                           priority = ''low''\<rparr>]
         else suggestions)"

definition recent_expenses :: "timestamp \<Rightarrow> dataframe \<Rightarrow> dataframe" where
  "recent_expenses now df = filter (\<lambda>r. date r \<ge> now - timedelta_days 7) df"

definition recent_trend :: "timestamp \<Rightarrow> dataframe \<Rightarrow> real \<Rightarrow> suggestion list \<Rightarrow> suggestion list" where
  "recent_trend now df total_spending suggestions =
     (if length (recent_expenses now df) > 0 then
        (let recent_total = sum_list (map amount (recent_expenses now df));
             previous_week_total = total_spending - recent_total
         in if previous_week_total > 0 then
              (let change_percentage =
                     ((recent_total - previous_week_total) / previous_week_total) * 100
               in if change_percentage > 20 then
                    suggestions @ [\<lparr>type = ''warning'',
                                    message = SpendingIncreased change_percentage,
                                    priority = ''medium''\<rparr>]
                  else if change_percentage < - 20 then
                    suggestions @ [\<lparr>type = ''positive'',
                                    message = SpendingDecreased \<bar>change_percentage\<bar>,
                                    priority = ''low''\<rparr>]
                  else suggestions)
            else suggestions)
      else suggestions)"

definition general_tips :: "suggestion list \<Rightarrow> suggestion list" where
  "general_tips suggestions =
     (if length suggestions < 3 then
        suggestions @ [\<lparr>type = ''tip'', message = TrackRegularly, priority = ''low''\<rparr>]
      else suggestions)"

definition generate_suggestions ::
  "timestamp \<Rightarrow> dataframe \<Rightarrow> real \<Rightarrow> real \<Rightarrow> string \<Rightarrow> suggestion list" where
  "generate_suggestions now df total_spending average_daily top_category =
     (let suggestions = [];
          suggestions = spending_level total_spending suggestions;
          suggestions = category_analysis df total_spending suggestions;
          suggestions = daily_pattern df suggestions;
          suggestions = payment_method_analysis df suggestions;
          suggestions = recent_trend now df total_spending suggestions;
          suggestions = general_tips suggestions
      in take 5 suggestions)"

subsection \<open>Detailed analysis\<close>

definition calculate_efficiency_score :: "dataframe \<Rightarrow> real \<Rightarrow> int" where
  "calculate_efficiency_score df total_spending =
     (let score = 100;
          daily_spending = map snd (groupby_sum (\<lambda>r. date_of (date r)) df);
          score = (if length daily_spending > 1 \<and> std daily_spending > mean daily_spending * 0.5
                   then score - 20 else score);
          small_transactions = length (filter (\<lambda>r. amount r < 100) df);
          score = (if real small_transactions > real (length df) * 0.3 then score - 15 else score);
          score = (if length daily_spending > 1 \<and> std daily_spending < mean daily_spending * 0.2
                   then score + 10 else score)
      in max 0 (min 100 score))"

definition identify_patterns :: "dataframe \<Rightarrow> string list" where
  "identify_patterns df =
     (let patterns = [];
          weekend_spending = sum_list (map amount (filter (\<lambda>r. weekday (date r) \<ge> 5) df));
          weekday_spending = sum_list (map amount (filter (\<lambda>r. weekday (date r) < 5) df));
          patterns = (if weekday_spending > 0 \<and> weekend_spending > weekday_spending * 1.5
                      then patterns @ [''Higher spending on weekends''] else patterns);
          category_counts = value_counts (map category df);
          patterns = (if length category_counts > 0
                         \<and> Max (set (map (\<lambda>kc. int (snd kc)) category_counts)) > 5
                      then patterns @ [''Frequent expenses in certain categories'']
                      else patterns);
          patterns =
            (if length df > 0 then
               (let large_transactions =
                      filter (\<lambda>r. amount r > quantile (map amount df) 0.9) df
                in if length large_transactions > 0
                   then patterns @ [''Occasional large transactions''] else patterns)
             else patterns)
      in patterns)"

definition detailed_analysis ::
  "dataframe \<Rightarrow> real \<Rightarrow> real \<Rightarrow> string \<Rightarrow> real \<Rightarrow> analysis" where
  "detailed_analysis df total_spending average_daily top_category top_category_amount =
     (let category_breakdown = groupby_sum category df;
          payment_method_breakdown = groupby_sum paymentMethod df;
          efficiency_score = calculate_efficiency_score df total_spending;
          patterns = identify_patterns df
      in \<lparr>totalSpending = total_spending,
          averageDailySpending = average_daily,
          topCategory = top_category,
          topCategoryAmount = Some top_category_amount,
          categoryBreakdown = Some category_breakdown,
          paymentMethodBreakdown = Some payment_method_breakdown,
          efficiencyScore = Some efficiency_score,
          patterns = Some patterns,
          analysis.message = AnalysisComplete total_spending\<rparr>)"

subsection \<open>The analyzer and its route\<close>

record result =
  suggestions :: "suggestion list"
  analysis :: analysis

definition analyze_expenses ::
  "('d \<Rightarrow> exn + timestamp) \<Rightarrow> ('a \<Rightarrow> exn + real) \<Rightarrow> timestamp \<Rightarrow>
   ('d, 'a) expense list \<Rightarrow> string \<Rightarrow> string \<Rightarrow> exn + result" where
  "analyze_expenses to_datetime to_numeric now expenses_data user_id user_name =
     (if expenses_data = [] then
        Inr \<lparr>suggestions = [\<lparr>type = ''info'', message = NoExpenseData, priority = ''low''\<rparr>],
             analysis = \<lparr>totalSpending = 0,
                         averageDailySpending = 0,
                         topCategory = ''None'',
                         topCategoryAmount = None,
                         categoryBreakdown = None,
                         paymentMethodBreakdown = None,
                         efficiencyScore = None,
                         patterns = None,
                         analysis.message = StartTracking\<rparr>\<rparr>
      else
        (case build_frame to_datetime to_numeric expenses_data of
           Inl e \<Rightarrow> Inl e
         | Inr df \<Rightarrow>
             (let total_spending = sum_list (map amount df);
                  average_daily = total_spending / 30
              in case idxmax (groupby_sum category df) of
                   Inl e \<Rightarrow> Inl e
                 | Inr top_category \<Rightarrow>
                     (let top_category_amount = series_max (map snd (groupby_sum category df));
                          suggestions =
                            generate_suggestions now df total_spending average_daily top_category;
                          analysis =
                            detailed_analysis df total_spending average_daily top_category
                              top_category_amount
                      in Inr \<lparr>suggestions = suggestions, analysis = analysis\<rparr>))))"

text \<open>
  The route \<open>/analyze\<close>. The posted JSON is \<open>data\<close> (\<open>None\<close> when there is none); the
  defaults of \<open>userId\<close> and \<open>userName\<close> are those of \<open>data.get\<close>.
\<close>

definition analyze_expenses_route ::
  "('d \<Rightarrow> exn + timestamp) \<Rightarrow> ('a \<Rightarrow> exn + real) \<Rightarrow> timestamp \<Rightarrow>
   ('d, 'a) body option \<Rightarrow> result response" where
  "analyze_expenses_route to_datetime to_numeric now data =
     (case data of
        None \<Rightarrow> Json400 ''Missing expenses data''
      | Some d \<Rightarrow>
          (case expenses d of
             None \<Rightarrow> Json400 ''Missing expenses data''
           | Some expenses_data \<Rightarrow>
               (let user_id = (case userId d of None \<Rightarrow> ''unknown'' | Some u \<Rightarrow> u);
                    user_name = (case userName d of None \<Rightarrow> ''User'' | Some u \<Rightarrow> u)
                in case analyze_expenses to_datetime to_numeric now expenses_data user_id user_name of
                     Inl e \<Rightarrow> Json500 ''Analysis failed'' e
                   | Inr result \<Rightarrow> Json200 result)))"

subsection \<open>Insights\<close>

definition get_insights ::
  "('d \<Rightarrow> exn + timestamp) \<Rightarrow> ('a \<Rightarrow> exn + real) \<Rightarrow> ('d, 'a) body option \<Rightarrow> insights response" where
  "get_insights to_datetime to_numeric data =
     (case data of
        None \<Rightarrow> Json400 ''Missing expenses data''
      | Some d \<Rightarrow>
          (case expenses d of
             None \<Rightarrow> Json400 ''Missing expenses data''
           | Some expenses_data \<Rightarrow>
               (let days = (case days d of None \<Rightarrow> 30 | Some n \<Rightarrow> n)
                in case build_frame to_datetime to_numeric expenses_data of
                     Inl e \<Rightarrow> Json500 ''Insights generation failed'' e
                   | Inr df \<Rightarrow>
                       (let total_spending = sum_list (map amount df)
                        in if days = 0 then
                             Json500 ''Insights generation failed'' ''float division by zero''
                           else
                             (let average_daily = total_spending / real_of_int days;
                                  category_totals = groupby_sum category df;
                                  payment_totals = groupby_sum paymentMethod df
                              in case (if length category_totals > 0 then idxmax category_totals
                                       else Inr ''None'') of
                                   Inl e \<Rightarrow> Json500 ''Insights generation failed'' e
                                 | Inr top_category \<Rightarrow>
                                  (case (if length payment_totals > 0 then idxmax payment_totals
                                         else Inr ''None'') of
                                     Inl e \<Rightarrow> Json500 ''Insights generation failed'' e
                                   | Inr top_payment \<Rightarrow>
                                       Json200
                                         \<lparr>insights.totalSpending = total_spending,
                                          insights.averageDailySpending = average_daily,
                                          insights.topCategory = top_category,
                                          topPaymentMethod = top_payment,
                                          insights.categoryBreakdown = category_totals,
                                          insights.paymentMethodBreakdown = payment_totals,
                                          transactionCount = int (length df),
                                          daysAnalyzed = days\<rparr>))))))"

subsection \<open>The sums in float64\<close>

text \<open>
  The amounts are float64 numbers, and the total (\<open>df['amount'].sum()\<close>) and the two
  breakdowns (\<open>df.groupby(...)['amount'].sum()\<close>) add them in float64. The definitions
  above are the idealisation in which no addition rounds; the ones here round every
  addition, to the nearest number with a significand of 53 bits, ties to the even
  significand. The exponent is unbounded: overflow to infinity and subnormal numbers are
  outside the model. A reduction adds the entries of the series in their order, starting
  from 0; the blocked order numpy uses on a long series and the compensation term of the
  grouped sum of pandas are not modelled.
\<close>









subsection \<open>The suggestion rules as the specification words them\<close>

text \<open>
  The specification lists six ordered rules, each giving the suggestions it contributes.
  They are stated here on their own, to be compared with the blocks of
  \<open>generate_suggestions\<close> above.
\<close>

definition rule_spending_level :: "real \<Rightarrow> suggestion list" where
  "rule_spending_level total_spending =
     (if total_spending > 10000 then
        [\<lparr>type = ''warning'', message = TotalQuiteHigh total_spending, priority = ''high''\<rparr>]
      else if total_spending > 5000 then
        [\<lparr>type = ''advice'', message = SpendingModerate total_spending, priority = ''medium''\<rparr>]
      else [])"

definition category_percentage :: "dataframe \<Rightarrow> real \<Rightarrow> (string \<times> npfloat) list" where
  "category_percentage df total_spending =
     map (\<lambda>ct. (fst ct, np_scale (np_div (snd ct) total_spending) 100)) (groupby_sum category df)"

definition rule_category_concentration :: "dataframe \<Rightarrow> real \<Rightarrow> suggestion list" where
  "rule_category_concentration df total_spending =
     map (\<lambda>cp. \<lparr>type = ''advice'', message = CategoryAccountsFor (fst cp) (snd cp),
                 priority = ''medium''\<rparr>)
       (filter (\<lambda>cp. np_gt (snd cp) 40) (category_percentage df total_spending))"

definition daily_totals :: "dataframe \<Rightarrow> real list" where
  "daily_totals df = map snd (groupby_sum (\<lambda>r. date_of (date r)) df)"

definition rule_daily_variance :: "dataframe \<Rightarrow> suggestion list" where
  "rule_daily_variance df =
     (if length (daily_totals df) > 1 \<and> std (daily_totals df) > mean (daily_totals df) * 0.5
      then [\<lparr>type = ''tip'', message = DailySpendingVaries, priority = ''low''\<rparr>]
      else [])"

definition rule_payment_diversity :: "dataframe \<Rightarrow> suggestion list" where
  "rule_payment_diversity df =
     (if card (paymentMethod ` set df) = 1
      then [\<lparr>type = ''tip'', message = OnlyUse (paymentMethod (hd df)), priority = ''low''\<rparr>]
      else [])"

definition rule_recent_trend :: "timestamp \<Rightarrow> dataframe \<Rightarrow> real \<Rightarrow> suggestion list" where
  "rule_recent_trend now df total_spending =
     (let recent = sum_list (map amount (recent_expenses now df));
          previous = total_spending - recent;
          change = (recent - previous) / previous * 100
      in if recent_expenses now df \<noteq> [] \<and> previous > 0 \<and> change > 20 then
           [\<lparr>type = ''warning'', message = SpendingIncreased change, priority = ''medium''\<rparr>]
         else if recent_expenses now df \<noteq> [] \<and> previous > 0 \<and> change < - 20 then
           [\<lparr>type = ''positive'', message = SpendingDecreased \<bar>change\<bar>, priority = ''low''\<rparr>]
         else [])"

definition rule_fallback :: "nat \<Rightarrow> suggestion list" where
  "rule_fallback generated =
     (if generated < 3 then [\<lparr>type = ''tip'', message = TrackRegularly, priority = ''low''\<rparr>]
      else [])"

definition rules_in_order :: "timestamp \<Rightarrow> dataframe \<Rightarrow> real \<Rightarrow> suggestion list" where
  "rules_in_order now df total_spending =
     (let generated = rule_spending_level total_spending @ rule_category_concentration df total_spending
                      @ rule_daily_variance df @ rule_payment_diversity df
                      @ rule_recent_trend now df total_spending
      in generated @ rule_fallback (length generated))"

subsection \<open>The efficiency score as the specification words it\<close>

definition adjusted_score :: "dataframe \<Rightarrow> int" where
  "adjusted_score df =
     100
     - (if length (daily_totals df) > 1 \<and> std (daily_totals df) > 0.5 * mean (daily_totals df)
        then 20 else 0)
     - (if real (length (filter (\<lambda>r. amount r < 100) df)) > 0.3 * real (length df)
        then 15 else 0)
     + (if length (daily_totals df) > 1 \<and> std (daily_totals df) < 0.2 * mean (daily_totals df)
        then 10 else 0)"

subsection \<open>The frame of a batch that parses\<close>

definition parse_row ::
  "('d \<Rightarrow> exn + timestamp) \<Rightarrow> ('a \<Rightarrow> exn + real) \<Rightarrow> ('d, 'a) expense \<Rightarrow> (timestamp, real) expense" where
  "parse_row to_datetime to_numeric r =
     \<lparr>date = projr (to_datetime (date r)), amount = projr (to_numeric (amount r)),
      category = category r, paymentMethod = paymentMethod r\<rparr>"

subsection \<open>Sample batches\<close>

text \<open>
  The scenario of the specification: three records of 12000, 100 and 50, all \<open>Food\<close>, all
  paid in \<open>Cash\<close>, at three given times; and the single-record scenario.
\<close>

definition scenario_batch :: "timestamp \<Rightarrow> timestamp \<Rightarrow> timestamp \<Rightarrow> (timestamp, real) expense list" where
  "scenario_batch d1 d2 d3 =
     [\<lparr>date = d1, amount = 12000, category = ''Food'', paymentMethod = ''Cash''\<rparr>,
      \<lparr>date = d2, amount = 100, category = ''Food'', paymentMethod = ''Cash''\<rparr>,
      \<lparr>date = d3, amount = 50, category = ''Food'', paymentMethod = ''Cash''\<rparr>]"

definition single_record :: "(timestamp, real) expense list" where
  "single_record = [\<lparr>date = 2505600, amount = 50, category = ''Misc'', paymentMethod = ''Card''\<rparr>]"

text \<open>A numeric parser for the samples: it knows two numerals and rejects the rest.\<close>

definition sample_to_numeric :: "string \<Rightarrow> exn + real" where
  "sample_to_numeric s =
     (if s = ''100'' then Inr 100 else if s = ''50'' then Inr 50
      else Inl (''Unable to parse string '' @ s))"





section \<open>Properties\<close>

subsection \<open>Each block appends what its rule gives\<close>

lemma spending_level_append: "spending_level total_spending s = s @ rule_spending_level total_spending"
  by (simp add: spending_level_def rule_spending_level_def spending_thresholds_def)

lemma fold_append_if:
  "fold (\<lambda>x s. if P x then s @ [f x] else s) xs s = s @ map f (filter P xs)"
  by (induction xs arbitrary: s) simp_all

lemma category_analysis_append:
  "category_analysis df total_spending s = s @ rule_category_concentration df total_spending"
proof -
  have e: "(\<lambda>(category, percentage) suggestions.
             if np_gt percentage 40 then
               suggestions @ [\<lparr>type = ''advice'', message = CategoryAccountsFor category percentage,
                               priority = ''medium''\<rparr>]
             else suggestions)
         = (\<lambda>x s. if np_gt (snd x) 40 then
                     s @ [\<lparr>type = ''advice'', message = CategoryAccountsFor (fst x) (snd x),
                           priority = ''medium''\<rparr>]
                   else s)"
    by (simp add: fun_eq_iff split_beta)
  have m: "map (\<lambda>(c, t). (c, np_scale (np_div t total_spending) 100)) (groupby_sum category df)
           = category_percentage df total_spending"
    by (simp add: category_percentage_def split_beta)
  show ?thesis
    unfolding category_analysis_def Let_def e m
    by (simp add: fold_append_if rule_category_concentration_def)
qed

lemma daily_pattern_append: "daily_pattern df s = s @ rule_daily_variance df"
  by (simp add: daily_pattern_def rule_daily_variance_def daily_totals_def Let_def)

lemma length_value_counts: "length (value_counts xs) = card (set xs)"
  by (simp add: value_counts_def length_remdups_card_conv)

lemma value_counts_single:
  assumes "card (set xs) = 1"
  shows "fst (value_counts xs ! 0) = hd xs"
proof -
  from assms obtain a where a: "set xs = {a}"
    by (auto simp: card_1_singleton_iff)
  then have ne: "xs \<noteq> []" by auto
  have "set (remdups xs) = {a}" "distinct (remdups xs)" using a by simp_all
  then have r: "remdups xs = [a]"
    by (metis distinct.simps(2) distinct_singleton empty_iff insert_iff list.exhaust list.set_intros(1) list.set_intros(2) set_ConsD)
  have "hd xs = a" using a ne by (metis hd_in_set singletonD)
  then show ?thesis by (simp add: value_counts_def r)
qed

lemma payment_method_analysis_append:
  "payment_method_analysis df s = s @ rule_payment_diversity df"
proof (cases "card (paymentMethod ` set df) = 1")
  case True
  then have "card (set (map paymentMethod df)) = 1" by simp
  from value_counts_single[OF this] True show ?thesis
    by (cases df) (simp_all add: payment_method_analysis_def rule_payment_diversity_def Let_def length_value_counts)
next
  case False
  then show ?thesis
    by (simp add: payment_method_analysis_def rule_payment_diversity_def Let_def length_value_counts)
qed

lemma recent_trend_append: "recent_trend now df total_spending s = s @ rule_recent_trend now df total_spending"
  by (simp add: recent_trend_def rule_recent_trend_def Let_def)

lemma rule_recent_trend_window:
  assumes "recent_expenses now df = recent_expenses now' df"
  shows "rule_recent_trend now df t = rule_recent_trend now' df t"
  unfolding rule_recent_trend_def assms ..

lemma general_tips_append: "general_tips s = s @ rule_fallback (length s)"
  by (simp add: general_tips_def rule_fallback_def)

lemma generate_suggestions_rules:
  "generate_suggestions now df total_spending average_daily top_category = take 5 (rules_in_order now df total_spending)"
  by (simp add: generate_suggestions_def rules_in_order_def Let_def spending_level_append
      category_analysis_append daily_pattern_append payment_method_analysis_append
      recent_trend_append general_tips_append add.assoc)

lemma length_generate_suggestions:
  "length (generate_suggestions now df t a c) \<le> 5"
  by (simp add: generate_suggestions_def Let_def)

lemma identify_patterns_subseq:
  "subseq (identify_patterns df)
     [''Higher spending on weekends'', ''Frequent expenses in certain categories'',
      ''Occasional large transactions'']"
  by (simp add: identify_patterns_def Let_def)

lemma length_identify_patterns: "length (identify_patterns df) \<le> 3"
  by (simp add: identify_patterns_def Let_def)

lemma calculate_efficiency_score_adjusted:
  "calculate_efficiency_score df t = max 0 (min 100 (adjusted_score df))"
  by (simp add: calculate_efficiency_score_def adjusted_score_def daily_totals_def Let_def mult.commute)

subsection \<open>Building the frame\<close>

lemma parse_column_map:
  "parse_column f xs = Inr ys \<Longrightarrow> ys = map (\<lambda>x. projr (f x)) xs \<and> (\<forall>x\<in>set xs. \<not> isl (f x))"
  by (induction xs arbitrary: ys) (auto split: sum.splits)

lemma parse_column_all:
  "\<forall>x\<in>set xs. \<not> isl (f x) \<Longrightarrow> parse_column f xs = Inr (map (\<lambda>x. projr (f x)) xs)"
  by (induction xs) (auto split: sum.splits)

lemma parse_column_fails:
  "\<exists>x\<in>set xs. isl (f x) \<Longrightarrow> \<exists>e. parse_column f xs = Inl e \<and> (\<exists>x\<in>set xs. f x = Inl e)"
proof (induction xs)
  case Nil
  then show ?case by simp
next
  case (Cons a xs)
  show ?case
  proof (cases "f a")
    case (Inl e)
    then show ?thesis by simp
  next
    case (Inr y)
    with Cons.prems have "\<exists>x\<in>set xs. isl (f x)" by auto
    from Cons.IH[OF this] obtain e where "parse_column f xs = Inl e" "\<exists>x\<in>set xs. f x = Inl e"
      by blast
    with Inr show ?thesis by auto
  qed
qed

lemma zip3_map:
  "map (\<lambda>(r, d, a). h r d a) (zip xs (zip (map f xs) (map g xs))) = map (\<lambda>r. h r (f r) (g r)) xs"
  by (induction xs) simp_all

lemma build_frame_Inr:
  assumes "build_frame to_datetime to_numeric expenses_data = Inr df"
  shows "df = map (parse_row to_datetime to_numeric) expenses_data"
    and "expenses_data \<noteq> []"
    and "\<forall>r\<in>set expenses_data. \<not> isl (to_datetime (date r)) \<and> \<not> isl (to_numeric (amount r))"
proof -
  show ne: "expenses_data \<noteq> []"
    using assms by (auto simp: build_frame_def column_def)
  from assms ne obtain dates amounts where
    d: "parse_column to_datetime (map date expenses_data) = Inr dates" and
    a: "parse_column to_numeric (map amount expenses_data) = Inr amounts" and
    df: "df = map (\<lambda>(r, d, a). \<lparr>date = d, amount = a, category = category r,
                                  paymentMethod = paymentMethod r\<rparr>)
                 (zip expenses_data (zip dates amounts))"
    by (auto simp: build_frame_def column_def split: sum.splits)
  from parse_column_map[OF d] parse_column_map[OF a]
  show "\<forall>r\<in>set expenses_data. \<not> isl (to_datetime (date r)) \<and> \<not> isl (to_numeric (amount r))"
    by simp
  have dates: "dates = map (\<lambda>r. projr (to_datetime (date r))) expenses_data"
    using parse_column_map[OF d] by (simp add: comp_def)
  have amounts: "amounts = map (\<lambda>r. projr (to_numeric (amount r))) expenses_data"
    using parse_column_map[OF a] by (simp add: comp_def)
  show "df = map (parse_row to_datetime to_numeric) expenses_data"
    unfolding df dates amounts zip3_map parse_row_def ..
qed


lemma build_frame_fails:
  assumes "expenses_data \<noteq> []"
    and "\<exists>r\<in>set expenses_data. isl (to_datetime (date r)) \<or> isl (to_numeric (amount r))"
  shows "\<exists>e. build_frame to_datetime to_numeric expenses_data = Inl e
           \<and> (\<exists>r\<in>set expenses_data. to_datetime (date r) = Inl e \<or> to_numeric (amount r) = Inl e)"
proof (cases "\<exists>r\<in>set expenses_data. isl (to_datetime (date r))")
  case True
  then have "\<exists>x\<in>set (map date expenses_data). isl (to_datetime x)" by simp
  from parse_column_fails[OF this] obtain e where
    "parse_column to_datetime (map date expenses_data) = Inl e"
    "\<exists>r\<in>set expenses_data. to_datetime (date r) = Inl e" by auto
  then show ?thesis using assms(1) by (auto simp: build_frame_def column_def)
next
  case False
  then have "\<forall>x\<in>set (map date expenses_data). \<not> isl (to_datetime x)" by simp
  from parse_column_all[OF this] obtain dates where
    d: "parse_column to_datetime (map date expenses_data) = Inr dates" by blast
  from False assms(2) have "\<exists>x\<in>set (map amount expenses_data). isl (to_numeric x)" by auto
  from parse_column_fails[OF this] obtain e where
    "parse_column to_numeric (map amount expenses_data) = Inl e"
    "\<exists>r\<in>set expenses_data. to_numeric (amount r) = Inl e" by auto
  then show ?thesis using assms(1) d by (auto simp: build_frame_def column_def)
qed


lemma sort_Nil_iff: "sort xs = [] \<longleftrightarrow> xs = []"
  by (metis length_0_conv length_sort)

lemma groupby_sum_Nil_iff: "groupby_sum key df = [] \<longleftrightarrow> df = []"
  by (simp add: groupby_sum_def sort_Nil_iff)

lemma analyze_expenses_frame:
  assumes "build_frame to_datetime to_numeric expenses_data = Inr df"
  shows "\<exists>top_category.
           idxmax (groupby_sum category df) = Inr top_category
         \<and> analyze_expenses to_datetime to_numeric now expenses_data user_id user_name =
             Inr \<lparr>suggestions =
                    generate_suggestions now df (sum_list (map amount df))
                      (sum_list (map amount df) / 30) top_category,
                  analysis =
                    detailed_analysis df (sum_list (map amount df))
                      (sum_list (map amount df) / 30) top_category
                      (series_max (map snd (groupby_sum category df)))\<rparr>"
proof -
  from build_frame_Inr[OF assms] have ne: "expenses_data \<noteq> []" and "df \<noteq> []" by auto
  then have "groupby_sum category df \<noteq> []" by (simp add: groupby_sum_Nil_iff)
  then obtain top_category where t: "idxmax (groupby_sum category df) = Inr top_category"
    by (simp add: idxmax_def)
  show ?thesis
    using ne assms t by (simp add: analyze_expenses_def Let_def)
qed

lemma analyze_expenses_suggestions:
  assumes "build_frame to_datetime to_numeric expenses_data = Inr df"
  shows "map_sum id suggestions
           (analyze_expenses to_datetime to_numeric now expenses_data user_id user_name)
         = Inr (take 5 (rules_in_order now df (sum_list (map amount df))))"
  using analyze_expenses_frame[OF assms, of now user_id user_name]
  by (auto simp: generate_suggestions_rules)

lemma analyze_expenses_Inl:
  "expenses_data \<noteq> [] \<Longrightarrow> build_frame to_datetime to_numeric expenses_data = Inl e \<Longrightarrow>
   analyze_expenses to_datetime to_numeric now expenses_data user_id user_name = Inl e"
  by (simp add: analyze_expenses_def)

subsection \<open>Grouped sums\<close>





subsection \<open>The quantile of equal values\<close>

lemma quantile_constant:
  assumes "xs \<noteq> []" and "\<forall>x\<in>set xs. x = c" and "0 \<le> q" and "q \<le> 1"
  shows "quantile xs q = c"
proof -
  have s: "\<And>i. i < length xs \<Longrightarrow> sort xs ! i = c"
    using assms(2) by (metis length_sort nth_mem set_sort)
  have n: "0 < length xs" using assms(1) by simp
  have "q * real (length xs - 1) \<le> real (length xs - 1)"
    using assms(4) mult_right_mono[of q 1 "real (length xs - 1)"] by simp
  then have "\<lfloor>q * real (length xs - 1)\<rfloor> \<le> int (length xs - 1)"
    by (simp add: floor_le_iff)
  then have "nat \<lfloor>q * real (length xs - 1)\<rfloor> \<le> length xs - 1"
    by linarith
  then have lo: "nat \<lfloor>q * real (length xs - 1)\<rfloor> < length xs"
    using n by linarith
  have hi: "min (nat \<lfloor>q * real (length xs - 1)\<rfloor> + 1) (length xs - 1) < length xs"
    by (rule min.strict_coboundedI2) (use n in simp)
  show ?thesis
    unfolding quantile_def Let_def s[OF lo] s[OF hi] by simp
qed

subsection \<open>The analyzer on the sample batches\<close>

lemma sqrt_gt_iff: "0 \<le> c \<Longrightarrow> (c < sqrt v) = (c\<^sup>2 < v)"
  by (metis abs_of_nonneg real_sqrt_abs real_sqrt_less_iff)

lemma sqrt_lt_iff: "0 \<le> c \<Longrightarrow> (sqrt v < c) = (v < c\<^sup>2)"
  by (metis abs_of_nonneg real_sqrt_abs real_sqrt_less_iff)

lemma build_frame_scenario:
  "build_frame Inr Inr (scenario_batch d1 d2 d3) = Inr (scenario_batch d1 d2 d3)"
  by (simp add: build_frame_def column_def scenario_batch_def)

lemma sum_scenario: "sum_list (map amount (scenario_batch d1 d2 d3)) = 12150"
  by (simp add: scenario_batch_def)

lemma daily_totals_three_days:
  "daily_totals (scenario_batch 2505600 2419200 2332800) = [50, 100, 12000]"
  by (simp add: daily_totals_def groupby_sum_def scenario_batch_def date_of_def)

lemma adjusted_score_three_days:
  "adjusted_score (scenario_batch 2505600 2419200 2332800) = 65"
  unfolding adjusted_score_def daily_totals_three_days
  by (simp add: std_def mean_def sqrt_gt_iff sqrt_lt_iff scenario_batch_def)

lemma rules_three_days:
  "rules_in_order 2592000 (scenario_batch 2505600 2419200 2332800) 12150 =
    [\<lparr>type = ''warning'', message = TotalQuiteHigh 12150, priority = ''high''\<rparr>,
     \<lparr>type = ''advice'', message = CategoryAccountsFor ''Food'' (Finite 100), priority = ''medium''\<rparr>,
     \<lparr>type = ''tip'', message = DailySpendingVaries, priority = ''low''\<rparr>,
     \<lparr>type = ''tip'', message = OnlyUse ''Cash'', priority = ''low''\<rparr>]"
  unfolding rules_in_order_def rule_daily_variance_def daily_totals_three_days
  by (simp add: std_def mean_def sqrt_gt_iff rule_spending_level_def rule_category_concentration_def
      category_percentage_def groupby_sum_def rule_payment_diversity_def rule_recent_trend_def
      recent_expenses_def timedelta_days_def rule_fallback_def scenario_batch_def np_div_def Let_def)

lemma daily_totals_same_day:
  assumes "date_of d1 = date_of d2" and "date_of d2 = date_of d3"
  shows "daily_totals (scenario_batch d1 d2 d3) = [12150]"
  using assms by (simp add: daily_totals_def groupby_sum_def scenario_batch_def)

lemma rule_recent_trend_all_or_none:
  assumes "(now - timedelta_days 7 \<le> d1 \<and> now - timedelta_days 7 \<le> d2 \<and> now - timedelta_days 7 \<le> d3)
         \<or> (d1 < now - timedelta_days 7 \<and> d2 < now - timedelta_days 7 \<and> d3 < now - timedelta_days 7)"
  shows "rule_recent_trend now (scenario_batch d1 d2 d3) 12150 = []"
  using assms
  by (auto simp: rule_recent_trend_def recent_expenses_def scenario_batch_def Let_def)

lemma daily_totals_spread:
  "daily_totals (scenario_batch 2505600 2419200 1000000) = [50, 100, 12000]"
  by (simp add: daily_totals_def groupby_sum_def scenario_batch_def date_of_def)

lemma rules_spread_early:
  "length (rules_in_order 2592000 (scenario_batch 2505600 2419200 1000000) 12150) = 5"
  unfolding rules_in_order_def rule_daily_variance_def daily_totals_spread
  by (simp add: std_def mean_def sqrt_gt_iff rule_spending_level_def rule_category_concentration_def
      category_percentage_def groupby_sum_def rule_payment_diversity_def rule_recent_trend_def
      recent_expenses_def timedelta_days_def rule_fallback_def scenario_batch_def np_div_def Let_def)

lemma rules_spread_late:
  "length (rules_in_order 5184000 (scenario_batch 2505600 2419200 1000000) 12150) = 4"
  unfolding rules_in_order_def rule_daily_variance_def daily_totals_spread
  by (simp add: std_def mean_def sqrt_gt_iff rule_spending_level_def rule_category_concentration_def
      category_percentage_def groupby_sum_def rule_payment_diversity_def rule_recent_trend_def
      recent_expenses_def timedelta_days_def rule_fallback_def scenario_batch_def np_div_def Let_def)

subsection \<open>Rounding and the error of a float64 sum\<close>


















subsection \<open>Float64 breakdowns of non-negative amounts\<close>









subsection \<open>Float64 sums of the sample batches\<close>










section \<open>The claims\<close>

subsection \<open>Dependence on the clock\<close>

text \<open>
  Claim C1, amended. The result of \<open>analyze_expenses\<close> is a function of the batch and of
  the clock reading. The analysis never depends on the clock, and the whole result depends
  on it only through the records that are dated within the last 7 days: two evaluations on
  the same batch at clock readings that select the same recent records give the same
  output.
\<close>

theorem clock_only_through_recent_window:
  "map_sum id analysis (analyze_expenses to_datetime to_numeric now expenses_data user_id user_name)
   = map_sum id analysis (analyze_expenses to_datetime to_numeric now' expenses_data user_id user_name)
   \<and> ((\<forall>df. build_frame to_datetime to_numeric expenses_data = Inr df \<longrightarrow>
              recent_expenses now df = recent_expenses now' df) \<longrightarrow>
        analyze_expenses to_datetime to_numeric now expenses_data user_id user_name
        = analyze_expenses to_datetime to_numeric now' expenses_data user_id user_name)"
proof (cases "build_frame to_datetime to_numeric expenses_data")
  case (Inl e)
  show ?thesis
  proof (cases "expenses_data = []")
    case True
    then show ?thesis by (simp add: analyze_expenses_def)
  next
    case False
    then show ?thesis by (simp add: analyze_expenses_Inl[OF False Inl])
  qed
next
  case (Inr df)
  from analyze_expenses_frame[OF Inr, of now user_id user_name]
    analyze_expenses_frame[OF Inr, of now' user_id user_name]
  obtain top_category where
    a: "analyze_expenses to_datetime to_numeric now expenses_data user_id user_name =
       Inr \<lparr>suggestions =
              generate_suggestions now df (sum_list (map amount df))
                (sum_list (map amount df) / 30) top_category,
            analysis =
              detailed_analysis df (sum_list (map amount df))
                (sum_list (map amount df) / 30) top_category
                (series_max (map snd (groupby_sum category df)))\<rparr>" and
    a': "analyze_expenses to_datetime to_numeric now' expenses_data user_id user_name =
       Inr \<lparr>suggestions =
              generate_suggestions now' df (sum_list (map amount df))
                (sum_list (map amount df) / 30) top_category,
            analysis =
              detailed_analysis df (sum_list (map amount df))
                (sum_list (map amount df) / 30) top_category
                (series_max (map snd (groupby_sum category df)))\<rparr>"
    by auto
  have "generate_suggestions now df t a c = generate_suggestions now' df t a c"
    if "recent_expenses now df = recent_expenses now' df" for t a c
    by (simp add: generate_suggestions_rules rules_in_order_def rule_recent_trend_window[OF that])
  then show ?thesis
    by (simp add: a a' Inr)
qed

theorem clock_only_through_recent_window_witness:
  "analyze_expenses Inr Inr 2592000 (scenario_batch 2505600 2419200 1000000) ''u1'' ''Asha''
   = analyze_expenses Inr Inr 2678400 (scenario_batch 2505600 2419200 1000000) ''u1'' ''Asha''"
proof -
  have "\<forall>df. build_frame Inr Inr (scenario_batch 2505600 2419200 1000000) = Inr df \<longrightarrow>
          recent_expenses 2592000 df = recent_expenses 2678400 df"
    unfolding build_frame_scenario
    by (simp add: recent_expenses_def timedelta_days_def scenario_batch_def)
  with clock_only_through_recent_window[of Inr Inr 2592000
      "scenario_batch 2505600 2419200 1000000" "''u1''" "''Asha''" 2678400]
  show ?thesis by blast
qed

text \<open>
  The same batch at two clock readings 30 days apart: at the first, two of the records are
  recent and the trend warning is the fifth suggestion; at the second, none is and there are
  four suggestions.
\<close>

theorem clock_changes_result_counterexample:
  "analyze_expenses Inr Inr 2592000 (scenario_batch 2505600 2419200 1000000) ''u1'' ''Asha''
   \<noteq> analyze_expenses Inr Inr 5184000 (scenario_batch 2505600 2419200 1000000) ''u1'' ''Asha''"
proof
  assume "analyze_expenses Inr Inr 2592000 (scenario_batch 2505600 2419200 1000000) ''u1'' ''Asha''
          = analyze_expenses Inr Inr 5184000 (scenario_batch 2505600 2419200 1000000) ''u1'' ''Asha''"
  then have "map_sum id suggestions
               (analyze_expenses Inr Inr 2592000 (scenario_batch 2505600 2419200 1000000) ''u1'' ''Asha'')
             = map_sum id suggestions
               (analyze_expenses Inr Inr 5184000 (scenario_batch 2505600 2419200 1000000) ''u1'' ''Asha'')"
    by simp
  then have "take 5 (rules_in_order 2592000 (scenario_batch 2505600 2419200 1000000) 12150)
             = take 5 (rules_in_order 5184000 (scenario_batch 2505600 2419200 1000000) 12150)"
    by (simp add: analyze_expenses_suggestions[OF build_frame_scenario] sum_scenario)
  then have "length (take 5 (rules_in_order 2592000 (scenario_batch 2505600 2419200 1000000) 12150))
             = length (take 5 (rules_in_order 5184000 (scenario_batch 2505600 2419200 1000000) 12150))"
    by simp
  then show False
    by (simp add: rules_spread_early rules_spread_late)
qed

subsection \<open>The efficiency score\<close>

text \<open>
  Claim C2, amended. For a non-empty batch that parses, the analysis has an
  \<open>efficiencyScore\<close>, an integer between 0 and 100, equal to \<open>max(0, min(100, s))\<close> for
  \<open>s\<close> the score 100 adjusted by the three rules. (The analysis of the empty batch has
  no such field, see the counterexample.)
\<close>

theorem efficiency_score_range:
  assumes "build_frame to_datetime to_numeric expenses_data = Inr df"
  shows "\<exists>r s. analyze_expenses to_datetime to_numeric now expenses_data user_id user_name = Inr r
           \<and> efficiencyScore (analysis r) = Some s
           \<and> 0 \<le> s \<and> s \<le> 100
           \<and> s = max 0 (min 100 (adjusted_score df))"
proof -
  from analyze_expenses_frame[OF assms, of now user_id user_name]
  obtain top_category where
    "analyze_expenses to_datetime to_numeric now expenses_data user_id user_name =
       Inr \<lparr>suggestions =
              generate_suggestions now df (sum_list (map amount df))
                (sum_list (map amount df) / 30) top_category,
            analysis =
              detailed_analysis df (sum_list (map amount df))
                (sum_list (map amount df) / 30) top_category
                (series_max (map snd (groupby_sum category df)))\<rparr>"
    by blast
  then show ?thesis
    by (simp add: detailed_analysis_def Let_def calculate_efficiency_score_adjusted)
qed

text \<open>The three-day scenario scores 65: high daily variance and one amount in three below 100.\<close>

theorem efficiency_score_range_witness:
  "\<exists>r. analyze_expenses Inr Inr 2592000 (scenario_batch 2505600 2419200 2332800) ''u1'' ''Asha''
          = Inr r
      \<and> efficiencyScore (analysis r) = Some 65"
  using efficiency_score_range[OF build_frame_scenario[of 2505600 2419200 2332800],
      of 2592000 "''u1''" "''Asha''"]
  by (auto simp: adjusted_score_three_days)

text \<open>The analysis of the empty batch has no score.\<close>

theorem efficiency_score_empty_counterexample:
  "map_sum id (efficiencyScore \<circ> analysis)
     (analyze_expenses (Inr :: int \<Rightarrow> exn + timestamp) (Inr :: real \<Rightarrow> exn + real) 0 [] ''u1'' ''Asha'')
   = Inr None"
  by (simp add: analyze_expenses_def)

subsection \<open>Breakdowns\<close>




subsection \<open>The empty batch\<close>

text \<open>
  Claim C4. On an empty sequence of records \<open>analyze_expenses\<close> returns one suggestion of
  type \<open>info\<close> and priority \<open>low\<close>, and an analysis with total and daily average 0, top
  category \<open>'None'\<close> and the fixed encouragement message. Nothing is parsed or aggregated:
  the result does not depend on the parsers, and the breakdowns, the score and the patterns
  are absent.
\<close>

theorem analyze_expenses_empty:
  "analyze_expenses to_datetime to_numeric now [] user_id user_name =
     Inr \<lparr>suggestions = [\<lparr>type = ''info'', message = NoExpenseData, priority = ''low''\<rparr>],
          analysis = \<lparr>totalSpending = 0, averageDailySpending = 0, topCategory = ''None'',
                      topCategoryAmount = None, categoryBreakdown = None,
                      paymentMethodBreakdown = None, efficiencyScore = None, patterns = None,
                      analysis.message = StartTracking\<rparr>\<rparr>"
  by (simp add: analyze_expenses_def)

subsection \<open>Order and length of suggestions and patterns\<close>

text \<open>
  Claim C5. For a non-empty batch that parses, the suggestions returned are the first five
  of what the six rules give in their order (the fallback rule looking at how many the
  first five rules gave), with no reordering, so there are at most five; and the patterns
  are a subsequence of weekend spending, frequent categories, large transactions, so there
  are at most three, in that order.
\<close>

theorem suggestions_and_patterns_bounded:
  assumes "build_frame to_datetime to_numeric expenses_data = Inr df"
  shows "\<exists>r ps. analyze_expenses to_datetime to_numeric now expenses_data user_id user_name = Inr r
           \<and> suggestions r = take 5 (rules_in_order now df (sum_list (map amount df)))
           \<and> length (suggestions r) \<le> 5
           \<and> patterns (analysis r) = Some ps
           \<and> subseq ps [''Higher spending on weekends'',
                        ''Frequent expenses in certain categories'',
                        ''Occasional large transactions'']
           \<and> length ps \<le> 3"
proof -
  from analyze_expenses_frame[OF assms, of now user_id user_name]
  obtain top_category where
    "analyze_expenses to_datetime to_numeric now expenses_data user_id user_name =
       Inr \<lparr>suggestions =
              generate_suggestions now df (sum_list (map amount df))
                (sum_list (map amount df) / 30) top_category,
            analysis =
              detailed_analysis df (sum_list (map amount df))
                (sum_list (map amount df) / 30) top_category
                (series_max (map snd (groupby_sum category df)))\<rparr>"
    by blast
  then show ?thesis
    using length_generate_suggestions[of now df] length_identify_patterns[of df]
      identify_patterns_subseq[of df]
    by (simp add: generate_suggestions_rules detailed_analysis_def Let_def)
qed

theorem suggestions_and_patterns_bounded_witness:
  "\<exists>r ps. analyze_expenses Inr Inr 2592000 (scenario_batch 2505600 2419200 2332800) ''u1'' ''Asha'' = Inr r
      \<and> suggestions r = take 5 (rules_in_order 2592000 (scenario_batch 2505600 2419200 2332800)
                                  (sum_list (map amount (scenario_batch 2505600 2419200 2332800))))
      \<and> length (suggestions r) \<le> 5
      \<and> patterns (analysis r) = Some ps
      \<and> subseq ps [''Higher spending on weekends'',
                   ''Frequent expenses in certain categories'',
                   ''Occasional large transactions'']
      \<and> length ps \<le> 3"
  using suggestions_and_patterns_bounded[OF build_frame_scenario] by blast

subsection \<open>The scenario of three records\<close>

text \<open>
  Claim C6, amended. For the batch of three records with amounts 12000, 100 and 50, all in
  category \<open>Food\<close> and paid in \<open>Cash\<close>, dated on one calendar day and either all within the
  last 7 days of the clock or none of them, \<open>analyze_expenses\<close> returns exactly three
  suggestions, in order: the high-spending warning for 12150, the category advice for Food
  at 100 percent, the single-payment-method tip naming Cash; no fallback tip is appended.
\<close>

theorem scenario_same_day:
  assumes "date_of d1 = date_of d2" and "date_of d2 = date_of d3"
    and "(now - timedelta_days 7 \<le> d1 \<and> now - timedelta_days 7 \<le> d2 \<and> now - timedelta_days 7 \<le> d3)
         \<or> (d1 < now - timedelta_days 7 \<and> d2 < now - timedelta_days 7 \<and> d3 < now - timedelta_days 7)"
  shows "map_sum id suggestions
           (analyze_expenses Inr Inr now (scenario_batch d1 d2 d3) user_id user_name)
         = Inr [\<lparr>type = ''warning'', message = TotalQuiteHigh 12150, priority = ''high''\<rparr>,
                \<lparr>type = ''advice'', message = CategoryAccountsFor ''Food'' (Finite 100),
                  priority = ''medium''\<rparr>,
                \<lparr>type = ''tip'', message = OnlyUse ''Cash'', priority = ''low''\<rparr>]"
proof -
  have 1: "rule_spending_level 12150 =
             [\<lparr>type = ''warning'', message = TotalQuiteHigh 12150, priority = ''high''\<rparr>]"
    by (simp add: rule_spending_level_def)
  have 2: "rule_category_concentration (scenario_batch d1 d2 d3) 12150 =
             [\<lparr>type = ''advice'', message = CategoryAccountsFor ''Food'' (Finite 100),
               priority = ''medium''\<rparr>]"
    by (simp add: rule_category_concentration_def category_percentage_def groupby_sum_def
        scenario_batch_def np_div_def)
  have 3: "rule_daily_variance (scenario_batch d1 d2 d3) = []"
    by (simp add: rule_daily_variance_def daily_totals_same_day[OF assms(1,2)])
  have 4: "rule_payment_diversity (scenario_batch d1 d2 d3) =
             [\<lparr>type = ''tip'', message = OnlyUse ''Cash'', priority = ''low''\<rparr>]"
    by (simp add: rule_payment_diversity_def scenario_batch_def)
  have 5: "rule_recent_trend now (scenario_batch d1 d2 d3) 12150 = []"
    by (rule rule_recent_trend_all_or_none[OF assms(3)])
  show ?thesis
    by (simp add: analyze_expenses_suggestions[OF build_frame_scenario] sum_scenario
        rules_in_order_def 1 2 3 4 5 rule_fallback_def)
qed

theorem scenario_same_day_witness:
  "map_sum id suggestions
     (analyze_expenses Inr Inr 2592000 (scenario_batch 2505600 2509200 2512800) ''u1'' ''Asha'')
   = Inr [\<lparr>type = ''warning'', message = TotalQuiteHigh 12150, priority = ''high''\<rparr>,
          \<lparr>type = ''advice'', message = CategoryAccountsFor ''Food'' (Finite 100),
            priority = ''medium''\<rparr>,
          \<lparr>type = ''tip'', message = OnlyUse ''Cash'', priority = ''low''\<rparr>]"
  using scenario_same_day[of 2505600 2509200 2512800 2592000 "''u1''" "''Asha''"]
  by (simp add: date_of_def timedelta_days_def)

text \<open>
  With the three records on three different days (all within the last 30 days of the clock)
  the daily totals vary, and the variance tip comes between the category advice and the
  payment tip: four suggestions, not three.
\<close>

theorem scenario_three_days_counterexample:
  "map_sum id suggestions
     (analyze_expenses Inr Inr 2592000 (scenario_batch 2505600 2419200 2332800) ''u1'' ''Asha'')
   = Inr [\<lparr>type = ''warning'', message = TotalQuiteHigh 12150, priority = ''high''\<rparr>,
          \<lparr>type = ''advice'', message = CategoryAccountsFor ''Food'' (Finite 100),
            priority = ''medium''\<rparr>,
          \<lparr>type = ''tip'', message = DailySpendingVaries, priority = ''low''\<rparr>,
          \<lparr>type = ''tip'', message = OnlyUse ''Cash'', priority = ''low''\<rparr>]
   \<and> map_sum id suggestions
         (analyze_expenses Inr Inr 2592000 (scenario_batch 2505600 2419200 2332800) ''u1'' ''Asha'')
       \<noteq> Inr [\<lparr>type = ''warning'', message = TotalQuiteHigh 12150, priority = ''high''\<rparr>,
                \<lparr>type = ''advice'', message = CategoryAccountsFor ''Food'' (Finite 100),
                  priority = ''medium''\<rparr>,
                \<lparr>type = ''tip'', message = OnlyUse ''Cash'', priority = ''low''\<rparr>]"
  by (simp add: analyze_expenses_suggestions[OF build_frame_scenario] sum_scenario rules_three_days)

subsection \<open>Parse failures\<close>

text \<open>
  Claim C7. For a non-empty batch in which some date or some amount does not parse, the
  frame is not built, and the route answers with the error \<open>Analysis failed\<close> carrying
  the text of a parse failure of one of the records; no result is returned.
\<close>

theorem parse_failure_aborts:
  assumes "expenses_data \<noteq> []"
    and "\<exists>r\<in>set expenses_data. isl (to_datetime (date r)) \<or> isl (to_numeric (amount r))"
  shows "\<exists>e. analyze_expenses_route to_datetime to_numeric now
               (Some \<lparr>expenses = Some expenses_data, userId = u, userName = n, days = d\<rparr>)
             = Json500 ''Analysis failed'' e
           \<and> build_frame to_datetime to_numeric expenses_data = Inl e
           \<and> (\<exists>r\<in>set expenses_data. to_datetime (date r) = Inl e \<or> to_numeric (amount r) = Inl e)"
proof -
  from build_frame_fails[OF assms] obtain e where
    e: "build_frame to_datetime to_numeric expenses_data = Inl e"
       "\<exists>r\<in>set expenses_data. to_datetime (date r) = Inl e \<or> to_numeric (amount r) = Inl e"
    by blast
  then have "analyze_expenses to_datetime to_numeric now expenses_data
               (case u of None \<Rightarrow> ''unknown'' | Some x \<Rightarrow> x)
               (case n of None \<Rightarrow> ''User'' | Some x \<Rightarrow> x) = Inl e"
    using assms(1) by (simp add: analyze_expenses_def)
  then show ?thesis using e by (auto simp: analyze_expenses_route_def Let_def)
qed

theorem parse_failure_aborts_witness:
  "analyze_expenses_route Inr sample_to_numeric 2592000
     (Some \<lparr>expenses =
              Some [\<lparr>date = 2505600, amount = ''100'', category = ''Food'', paymentMethod = ''Cash''\<rparr>,
                    \<lparr>date = 2419200, amount = ''abc'', category = ''Food'', paymentMethod = ''Cash''\<rparr>],
            userId = None, userName = None, days = None\<rparr>)
   = Json500 ''Analysis failed'' ''Unable to parse string abc''"
  using parse_failure_aborts[of
      "[\<lparr>date = 2505600, amount = ''100'', category = ''Food'', paymentMethod = ''Cash''\<rparr>,
        \<lparr>date = 2419200, amount = ''abc'', category = ''Food'', paymentMethod = ''Cash''\<rparr>]"
      Inr sample_to_numeric 2592000 None None None]
  by (auto simp: build_frame_def column_def sample_to_numeric_def)

subsection \<open>Insights on an empty list\<close>

text \<open>
  Claim C8. In the insights operation an empty totals mapping gives the top label
  \<open>'None'\<close>, and in particular an empty expenses list is to give these defaults rather
  than an error. The guards \<open>if len(...) > 0 else 'None'\<close> are in \<open>get_insights\<close>, but on
  an empty list the code does not get that far: the frame of an empty list has no \<open>date\<close>
  column, the column access raises KeyError, and the route answers with the error
  \<open>Insights generation failed\<close>.
\<close>

theorem get_insights_empty_list:
  "get_insights to_datetime to_numeric
     (Some \<lparr>expenses = Some [], userId = u, userName = n, days = d\<rparr>)
   = Json500 ''Insights generation failed'' (KeyError ''date'')"
  by (simp add: get_insights_def build_frame_def column_def)

subsection \<open>The user fields\<close>

text \<open>
  Claim C9. \<open>userId\<close> and \<open>userName\<close> have no influence: the analyzer returns the same
  result for any two pairs of them, and so does the route for two bodies that differ in
  these fields only.
\<close>

theorem user_fields_ignored:
  "analyze_expenses to_datetime to_numeric now expenses_data user_id user_name =
     analyze_expenses to_datetime to_numeric now expenses_data user_id' user_name'
   \<and> analyze_expenses_route to_datetime to_numeric now
         (Some \<lparr>expenses = e, userId = u, userName = n, days = d\<rparr>) =
       analyze_expenses_route to_datetime to_numeric now
         (Some \<lparr>expenses = e, userId = u', userName = n', days = d\<rparr>)"
  by (simp add: analyze_expenses_def analyze_expenses_route_def split: option.splits)

subsection \<open>Large transactions\<close>

text \<open>
  Claim C10. For a non-empty batch whose amounts are all equal, the 90th percentile of the
  amounts is the common amount, no amount exceeds it, and the pattern
  \<open>Occasional large transactions\<close> is not reported.
\<close>

theorem no_large_transactions_when_equal:
  assumes "build_frame to_datetime to_numeric expenses_data = Inr df"
    and "\<forall>r\<in>set df. amount r = c"
  shows "\<exists>r ps. analyze_expenses to_datetime to_numeric now expenses_data user_id user_name = Inr r
           \<and> patterns (analysis r) = Some ps
           \<and> quantile (map amount df) 0.9 = c
           \<and> ''Occasional large transactions'' \<notin> set ps"
proof -
  from build_frame_Inr[OF assms(1)] have ne: "map amount df \<noteq> []" by simp
  have q: "quantile (map amount df) 0.9 = c"
    by (rule quantile_constant[OF ne]) (use assms(2) in auto)
  have "filter (\<lambda>r. amount r > quantile (map amount df) 0.9) df = []"
    unfolding q using assms(2) by (simp add: filter_empty_conv)
  then have p: "''Occasional large transactions'' \<notin> set (identify_patterns df)"
    by (simp add: identify_patterns_def Let_def)
  from analyze_expenses_frame[OF assms(1), of now user_id user_name]
  obtain top_category where
    "analyze_expenses to_datetime to_numeric now expenses_data user_id user_name =
       Inr \<lparr>suggestions =
              generate_suggestions now df (sum_list (map amount df))
                (sum_list (map amount df) / 30) top_category,
            analysis =
              detailed_analysis df (sum_list (map amount df))
                (sum_list (map amount df) / 30) top_category
                (series_max (map snd (groupby_sum category df)))\<rparr>"
    by blast
  then show ?thesis using p q by (simp add: detailed_analysis_def Let_def)
qed

theorem no_large_transactions_when_equal_witness:
  "\<exists>r ps. analyze_expenses Inr Inr 2592000 single_record ''u1'' ''Asha'' = Inr r
      \<and> patterns (analysis r) = Some ps
      \<and> quantile (map amount single_record) 0.9 = 50
      \<and> ''Occasional large transactions'' \<notin> set ps"
proof -
  have b: "build_frame Inr Inr single_record = Inr single_record"
    by (simp add: build_frame_def column_def single_record_def)
  have a: "\<forall>r\<in>set single_record. amount r = 50"
    by (simp add: single_record_def)
  from no_large_transactions_when_equal[OF b a] show ?thesis .
qed

end
